theory Spec2Isabelle
  imports Main "HOL-Library.Word"
begin

unbundle bit_operations_syntax

section \<open>The XLR8 SPI SRAM control register\<close>

text \<open>
  The library header \<^verbatim>\<open>XLR8SPISRAM.h\<close> declares one class whose six inline methods
  each do a read-modify-write of a single memory-mapped byte, the control register
  \<^verbatim>\<open>XLR8SPISRAMMEMCR\<close> at data address \<^verbatim>\<open>0xF0\<close>:
  \<^item> bits 7:6 reserved,
  \<^item> bits 5:4 SRAM mode (byte = 00, page = 10, sequential = 01),
  \<^item> bits 3:1 SPI speed,
  \<^item> bit 0 extended address enable.

  The target is an 8-bit AVR: \<^verbatim>\<open>uint8_t\<close> is an 8-bit word and \<^verbatim>\<open>int\<close>, the type in
  which C++ evaluates \<^verbatim>\<open>&\<close>, \<^verbatim>\<open>|\<close> and \<^verbatim>\<open><<\<close> on promoted bytes, has 16 bits. Every
  intermediate value of the methods lies in 0..511, so the sign of \<^verbatim>\<open>int\<close> never
  matters and a 16-bit word models it.
\<close>

type_synonym uint8_t = "8 word"
type_synonym int_t = "16 word"

text \<open>The data space: every address holds one byte.\<close>

type_synonym data_space = "16 word \<Rightarrow> uint8_t"

subsection \<open>Clock division codes\<close>

definition SPI_CLOCK_DIV4 :: uint8_t where "SPI_CLOCK_DIV4 = 0x00"
definition SPI_CLOCK_DIV16 :: uint8_t where "SPI_CLOCK_DIV16 = 0x01"
definition SPI_CLOCK_DIV64 :: uint8_t where "SPI_CLOCK_DIV64 = 0x02"
definition SPI_CLOCK_DIV128 :: uint8_t where "SPI_CLOCK_DIV128 = 0x03"
definition SPI_CLOCK_DIV2 :: uint8_t where "SPI_CLOCK_DIV2 = 0x04"
definition SPI_CLOCK_DIV8 :: uint8_t where "SPI_CLOCK_DIV8 = 0x05"
definition SPI_CLOCK_DIV32 :: uint8_t where "SPI_CLOCK_DIV32 = 0x06"

subsection \<open>Access to the register\<close>

text \<open>
  \<^verbatim>\<open>#define XLR8SPISRAMMEMCR _SFR_MEM8(0xF0)\<close>: the macro names the byte at address
  \<^verbatim>\<open>0xF0\<close> of the data space. Used as a value it loads that byte
  (\<open>XLR8SPISRAMMEMCR\<close>), used on the left of an assignment it stores to it
  (\<open>XLR8SPISRAMMEMCR_store\<close>).
\<close>

definition MEMCR_addr :: "16 word" where
  "MEMCR_addr = 0xF0"

definition XLR8SPISRAMMEMCR :: "data_space \<Rightarrow> uint8_t" where
  "XLR8SPISRAMMEMCR m = m MEMCR_addr"

definition XLR8SPISRAMMEMCR_store :: "uint8_t \<Rightarrow> data_space \<Rightarrow> data_space" where
  "XLR8SPISRAMMEMCR_store b m = m(MEMCR_addr := b)"

text \<open>Integral promotion of a byte to \<^verbatim>\<open>int\<close>, and the conversion back on a store or a cast.\<close>

definition promote :: "uint8_t \<Rightarrow> int_t" where
  "promote b = ucast b"

definition to_uint8_t :: "int_t \<Rightarrow> uint8_t" where
  "to_uint8_t i = ucast i"

subsection \<open>The methods of \<^verbatim>\<open>XLR8SPISRAM_Class\<close>\<close>

text \<open>\<^verbatim>\<open>XLR8SPISRAMMEMCR &= 0x0F;\<close>\<close>

definition byte_mode :: "data_space \<Rightarrow> data_space" where
  "byte_mode m =
     XLR8SPISRAMMEMCR_store (to_uint8_t (promote (XLR8SPISRAMMEMCR m) AND 0x0F)) m"

text \<open>\<^verbatim>\<open>XLR8SPISRAMMEMCR = (XLR8SPISRAMMEMCR & 0x0F) | 0x20;\<close>\<close>

definition page_mode :: "data_space \<Rightarrow> data_space" where
  "page_mode m =
     XLR8SPISRAMMEMCR_store
       (to_uint8_t ((promote (XLR8SPISRAMMEMCR m) AND 0x0F) OR 0x20)) m"

text \<open>\<^verbatim>\<open>XLR8SPISRAMMEMCR = (XLR8SPISRAMMEMCR & 0x0F) | 0x10;\<close>\<close>

definition sequential_mode :: "data_space \<Rightarrow> data_space" where
  "sequential_mode m =
     XLR8SPISRAMMEMCR_store
       (to_uint8_t ((promote (XLR8SPISRAMMEMCR m) AND 0x0F) OR 0x10)) m"

text \<open>
  \<^verbatim>\<open>XLR8SPISRAMMEMCR = (XLR8SPISRAMMEMCR & 0x31) | ((uint8_t)(divider << 1));\<close>
  The shift is done on the promoted \<^verbatim>\<open>divider\<close>, the cast truncates it to a byte, and
  the byte is promoted again for the \<^verbatim>\<open>|\<close>.
\<close>

definition clock_divider :: "uint8_t \<Rightarrow> data_space \<Rightarrow> data_space" where
  "clock_divider divider m =
     XLR8SPISRAMMEMCR_store
       (to_uint8_t ((promote (XLR8SPISRAMMEMCR m) AND 0x31)
                    OR promote (to_uint8_t (push_bit 1 (promote divider))))) m"

text \<open>\<^verbatim>\<open>XLR8SPISRAMMEMCR |= 0x01;\<close>\<close>

definition extended_address_enable :: "data_space \<Rightarrow> data_space" where
  "extended_address_enable m =
     XLR8SPISRAMMEMCR_store (to_uint8_t (promote (XLR8SPISRAMMEMCR m) OR 0x01)) m"

text \<open>\<^verbatim>\<open>XLR8SPISRAMMEMCR &= 0x3E;\<close>\<close>

definition extended_address_disable :: "data_space \<Rightarrow> data_space" where
  "extended_address_disable m =
     XLR8SPISRAMMEMCR_store (to_uint8_t (promote (XLR8SPISRAMMEMCR m) AND 0x3E)) m"

subsection \<open>A concrete data space\<close>

text \<open>The data space with every byte zero, the start of the worked examples.\<close>

definition zeroed :: data_space where
  "zeroed a = 0"


section \<open>Loads, stores and narrowing\<close>

lemma load_store: "XLR8SPISRAMMEMCR (XLR8SPISRAMMEMCR_store b m) = b"
  by (simp add: XLR8SPISRAMMEMCR_def XLR8SPISRAMMEMCR_store_def)

lemma store_store:
  "XLR8SPISRAMMEMCR_store a (XLR8SPISRAMMEMCR_store b m) = XLR8SPISRAMMEMCR_store a m"
  by (simp add: XLR8SPISRAMMEMCR_store_def)

lemma load_zeroed: "XLR8SPISRAMMEMCR zeroed = 0"
  by (simp add: XLR8SPISRAMMEMCR_def zeroed_def)

text \<open>
  Narrowing an \<^verbatim>\<open>int\<close> to a byte keeps the low eight bits, so it commutes with the
  bitwise operators and with the left shift, and undoes the promotion.
\<close>

lemma narrow_promote: "to_uint8_t (promote v) = v"
  unfolding to_uint8_t_def promote_def
  by (rule bit_word_eqI) (auto simp add: bit_simps)

lemma narrow_AND: "to_uint8_t (x AND y) = to_uint8_t x AND to_uint8_t y"
  unfolding to_uint8_t_def
  by (rule bit_word_eqI) (auto simp add: bit_simps)

lemma narrow_OR: "to_uint8_t (x OR y) = to_uint8_t x OR to_uint8_t y"
  unfolding to_uint8_t_def
  by (rule bit_word_eqI) (auto simp add: bit_simps)

lemma narrow_push_bit: "to_uint8_t (push_bit n x) = push_bit n (to_uint8_t x)"
  unfolding to_uint8_t_def
  by (rule bit_word_eqI) (auto simp add: bit_simps)

lemma narrow_mask:
  "to_uint8_t 0x0F = 0x0F" "to_uint8_t 0x20 = 0x20" "to_uint8_t 0x10 = 0x10"
  "to_uint8_t 0x31 = 0x31" "to_uint8_t 0x01 = 0x01" "to_uint8_t 0x3E = 0x3E"
  unfolding to_uint8_t_def by simp_all

lemmas narrow = narrow_promote narrow_AND narrow_OR narrow_push_bit narrow_mask

text \<open>
  Hence every method stores a byte computed from the loaded byte by 8-bit operations:
  the 16-bit intermediate values never show.
\<close>

lemma byte_mode_store:
  "byte_mode m = XLR8SPISRAMMEMCR_store (XLR8SPISRAMMEMCR m AND 0x0F) m"
  by (simp add: byte_mode_def narrow)

lemma page_mode_store:
  "page_mode m = XLR8SPISRAMMEMCR_store ((XLR8SPISRAMMEMCR m AND 0x0F) OR 0x20) m"
  by (simp add: page_mode_def narrow)

lemma sequential_mode_store:
  "sequential_mode m = XLR8SPISRAMMEMCR_store ((XLR8SPISRAMMEMCR m AND 0x0F) OR 0x10) m"
  by (simp add: sequential_mode_def narrow)

lemma clock_divider_store:
  "clock_divider c m =
     XLR8SPISRAMMEMCR_store ((XLR8SPISRAMMEMCR m AND 0x31) OR push_bit 1 c) m"
  by (simp only: clock_divider_def narrow)

lemma extended_address_enable_store:
  "extended_address_enable m = XLR8SPISRAMMEMCR_store (XLR8SPISRAMMEMCR m OR 0x01) m"
  by (simp add: extended_address_enable_def narrow)

lemma extended_address_disable_store:
  "extended_address_disable m = XLR8SPISRAMMEMCR_store (XLR8SPISRAMMEMCR m AND 0x3E) m"
  by (simp add: extended_address_disable_def narrow)

lemmas method_store = byte_mode_store page_mode_store sequential_mode_store
  clock_divider_store extended_address_enable_store extended_address_disable_store


section \<open>Bytes, bit by bit\<close>

text \<open>Two bytes are equal when their eight bits are.\<close>

lemma uint8_eqI:
  fixes x y :: uint8_t
  assumes "bit x 0 = bit y 0" "bit x 1 = bit y 1" "bit x 2 = bit y 2" "bit x 3 = bit y 3"
    "bit x 4 = bit y 4" "bit x 5 = bit y 5" "bit x 6 = bit y 6" "bit x 7 = bit y 7"
  shows "x = y"
proof (rule bit_word_eqI)
  fix n assume "n < LENGTH(8)"
  then have "n \<in> {0, 1, 2, 3, 4, 5, 6, 7}" by auto
  with assms show "bit x n = bit y n" by auto
qed

text \<open>The bits of a byte shifted left by one: bit 0 is clear, bit 7 of the operand is lost.\<close>

lemma bit_double_uint8:
  "bit (c * 2 :: uint8_t) n \<longleftrightarrow> 0 < n \<and> n < 8 \<and> bit c (n - 1)"
  using bit_double_iff [of c n] by (auto simp add: mult.commute possible_bit_word)

lemmas bitwise = bit_simps bit_double_uint8
  numeral_2_eq_2 [symmetric] numeral_3_eq_3 [symmetric]

lemma shift_as_nat: "push_bit 1 (c :: uint8_t) = word_of_nat ((2 * unat c) mod 256)"
proof -
  have "(word_of_nat (x mod 256) :: uint8_t) = word_of_nat x" for x
    by (simp add: word_of_nat_eq_iff take_bit_eq_mod)
  then have "(word_of_nat ((2 * unat c) mod 256) :: uint8_t) = word_of_nat (2 * unat c)" .
  also have "\<dots> = push_bit 1 c" by simp
  finally show ?thesis by simp
qed

lemma low3_of_small: "c \<le> 7 \<Longrightarrow> c AND 7 = (c :: uint8_t)"
proof -
  assume "c \<le> 7"
  then have "c < 2 ^ 3" by (simp add: word_le_nat_alt word_less_nat_alt)
  then have "c AND mask 3 = c" by (rule less_mask_eq)
  then show ?thesis by (simp add: mask_eq_exp_minus_1)
qed

lemma shift_low3:
  assumes "(c :: uint8_t) AND 0x78 = 0"
  shows "push_bit 1 c = push_bit 1 (c AND 0x07)"
proof -
  have "\<not> bit (c AND 0x78) 3" "\<not> bit (c AND 0x78) 4"
    "\<not> bit (c AND 0x78) 5" "\<not> bit (c AND 0x78) 6"
    by (simp_all add: assms)
  then have high: "\<not> bit c 3" "\<not> bit c 4" "\<not> bit c 5" "\<not> bit c 6"
    by (simp_all add: bitwise)
  show ?thesis
    by (rule uint8_eqI; simp add: bitwise high)
qed

lemma shift_split:
  "push_bit 1 (c AND 0x07) OR push_bit 1 (c AND 0x78) = push_bit 1 (c :: uint8_t)"
  by (rule uint8_eqI; simp add: bitwise)

lemma shift_bit7:
  "push_bit 1 (c OR 0x80) = push_bit 1 (c :: uint8_t)"
  "push_bit 1 (c AND 0x7F) = push_bit 1 (c :: uint8_t)"
  by (rule uint8_eqI; simp add: bitwise)+

lemma clock_field: "take_bit 3 (drop_bit 1 ((v AND 0x31) OR push_bit 1 c)) = (c AND 0x07 :: uint8_t)"
  by (rule uint8_eqI; simp add: bitwise)

section \<open>The mode field\<close>

text \<open>
  Claim C1. Whatever byte \<open>v\<close> the register holds, \<^verbatim>\<open>byte_mode()\<close> leaves \<open>v AND 0x0F\<close>
  in it, \<^verbatim>\<open>page_mode()\<close> leaves \<open>(v AND 0x0F) OR 0x20\<close> and \<^verbatim>\<open>sequential_mode()\<close> leaves
  \<open>(v AND 0x0F) OR 0x10\<close>. So bits 7:4 of the result are the mode code alone (0000, 0010
  and 0001: bits 7:6 zero, bits 5:4 equal to 00, 10 and 01), and bits 3:0 are those
  of \<open>v\<close>.
\<close>

theorem mode_setters_result:
  "XLR8SPISRAMMEMCR (byte_mode m) = XLR8SPISRAMMEMCR m AND 0x0F
   \<and> XLR8SPISRAMMEMCR (page_mode m) = (XLR8SPISRAMMEMCR m AND 0x0F) OR 0x20
   \<and> XLR8SPISRAMMEMCR (sequential_mode m) = (XLR8SPISRAMMEMCR m AND 0x0F) OR 0x10
   \<and> drop_bit 4 (XLR8SPISRAMMEMCR (byte_mode m)) = 0
   \<and> drop_bit 4 (XLR8SPISRAMMEMCR (page_mode m)) = 2
   \<and> drop_bit 4 (XLR8SPISRAMMEMCR (sequential_mode m)) = 1
   \<and> XLR8SPISRAMMEMCR (byte_mode m) AND 0x0F = XLR8SPISRAMMEMCR m AND 0x0F
   \<and> XLR8SPISRAMMEMCR (page_mode m) AND 0x0F = XLR8SPISRAMMEMCR m AND 0x0F
   \<and> XLR8SPISRAMMEMCR (sequential_mode m) AND 0x0F = XLR8SPISRAMMEMCR m AND 0x0F"
proof -
  have high: "drop_bit 4 (v AND 0x0F) = 0" "drop_bit 4 ((v AND 0x0F) OR 0x20) = 2"
    "drop_bit 4 ((v AND 0x0F) OR 0x10) = 1" for v :: uint8_t
    by (rule uint8_eqI; simp add: bitwise)+
  have low: "((v AND 0x0F) OR 0x20) AND 0x0F = v AND 0x0F"
    "((v AND 0x0F) OR 0x10) AND 0x0F = v AND 0x0F" for v :: uint8_t
    by (rule uint8_eqI; simp add: bitwise)+
  show ?thesis
    by (simp add: byte_mode_store page_mode_store sequential_mode_store load_store
        high low and.assoc)
qed


section \<open>The clock field\<close>

text \<open>
  Claim C2. For every register value \<open>v\<close> and every code \<open>c\<close> in 0..7, after
  \<^verbatim>\<open>clock_divider(c)\<close> the register holds \<open>(v AND 0x31) OR (c << 1)\<close>: bits 3:1 are \<open>c\<close>,
  bits 5:4 and bit 0 are those of \<open>v\<close>, and bits 7:6 are zero.
\<close>

theorem clock_divider_code_in_range:
  "c \<le> 7 \<Longrightarrow>
   XLR8SPISRAMMEMCR (clock_divider c m) = (XLR8SPISRAMMEMCR m AND 0x31) OR push_bit 1 c
   \<and> take_bit 3 (drop_bit 1 (XLR8SPISRAMMEMCR (clock_divider c m))) = c
   \<and> XLR8SPISRAMMEMCR (clock_divider c m) AND 0x30 = XLR8SPISRAMMEMCR m AND 0x30
   \<and> XLR8SPISRAMMEMCR (clock_divider c m) AND 0x01 = XLR8SPISRAMMEMCR m AND 0x01
   \<and> XLR8SPISRAMMEMCR (clock_divider c m) AND 0xC0 = 0"
proof -
  assume "c \<le> 7"
  then have c: "c AND 0x07 = c" by (rule low3_of_small)
  define v where "v = XLR8SPISRAMMEMCR m"
  have shift: "push_bit 1 c = push_bit 1 (c AND 0x07)" by (simp add: c)
  have r: "XLR8SPISRAMMEMCR (clock_divider c m) = (v AND 0x31) OR push_bit 1 (c AND 0x07)"
    unfolding v_def by (simp only: clock_divider_store load_store c)
  have field: "take_bit 3 (drop_bit 1 ((v AND 0x31) OR push_bit 1 (c AND 0x07))) = c"
    using clock_field [of v c] by (simp only: c)
  have mode: "((v AND 0x31) OR push_bit 1 (c AND 0x07)) AND 0x30 = v AND 0x30"
    by (rule uint8_eqI; simp add: bitwise)
  have ext: "((v AND 0x31) OR push_bit 1 (c AND 0x07)) AND 0x01 = v AND 0x01"
    by (rule uint8_eqI; simp add: bitwise)
  have reserved: "((v AND 0x31) OR push_bit 1 (c AND 0x07)) AND 0xC0 = 0"
    by (rule uint8_eqI; simp add: bitwise)
  show ?thesis
    unfolding r field mode ext reserved
    unfolding v_def c by simp
qed

text \<open>The code 5 (\<^verbatim>\<open>SPI_CLOCK_DIV8\<close>) written over a register holding \<^verbatim>\<open>0xFF\<close>.\<close>

theorem clock_divider_code_in_range_witness:
  "(5 :: uint8_t) \<le> 7
   \<and> XLR8SPISRAMMEMCR (clock_divider 5 (XLR8SPISRAMMEMCR_store 0xFF zeroed)) = 0x3B
   \<and> take_bit 3 (drop_bit 1
        (XLR8SPISRAMMEMCR (clock_divider 5 (XLR8SPISRAMMEMCR_store 0xFF zeroed)))) = 5"
  using clock_divider_code_in_range [of 5 "XLR8SPISRAMMEMCR_store 0xFF zeroed"]
  by (simp add: load_store)

text \<open>
  Claim C3, as amended. For every register value \<open>v\<close> and every 8-bit code \<open>c\<close>, bits 3:1
  of the register after \<^verbatim>\<open>clock_divider(c)\<close> are the low three bits of \<open>c\<close>. The higher
  bits of \<open>c\<close> are not all discarded: bits 6:3 are OR-ed into bits 7:4 and only bit 7 is
  lost, so the result is \<open>(v AND 0x31) OR ((c AND 0x07) << 1) OR ((c AND 0x78) << 1)\<close>.
  It is \<open>(v AND 0x31) OR ((c AND 0x07) << 1)\<close> for the codes with bits 6:3 clear, which
  are the codes 0..7 and those codes with bit 7 set.
\<close>

theorem clock_divider_low_three_bits:
  "take_bit 3 (drop_bit 1 (XLR8SPISRAMMEMCR (clock_divider c m))) = c AND 0x07
   \<and> XLR8SPISRAMMEMCR (clock_divider c m) =
       (XLR8SPISRAMMEMCR m AND 0x31) OR push_bit 1 (c AND 0x07) OR push_bit 1 (c AND 0x78)
   \<and> (c AND 0x78 = 0 \<longrightarrow>
       XLR8SPISRAMMEMCR (clock_divider c m) =
         (XLR8SPISRAMMEMCR m AND 0x31) OR push_bit 1 (c AND 0x07))"
proof (intro conjI impI)
  show "take_bit 3 (drop_bit 1 (XLR8SPISRAMMEMCR (clock_divider c m))) = c AND 0x07"
    by (simp only: clock_divider_store load_store clock_field)
  show "XLR8SPISRAMMEMCR (clock_divider c m) =
      (XLR8SPISRAMMEMCR m AND 0x31) OR push_bit 1 (c AND 0x07) OR push_bit 1 (c AND 0x78)"
    by (simp only: clock_divider_store load_store or.assoc shift_split)
  assume "c AND 0x78 = 0"
  then have "push_bit 1 c = push_bit 1 (c AND 0x07)" by (rule shift_low3)
  then show "XLR8SPISRAMMEMCR (clock_divider c m) =
      (XLR8SPISRAMMEMCR m AND 0x31) OR push_bit 1 (c AND 0x07)"
    by (simp only: clock_divider_store load_store)
qed

text \<open>The code \<^verbatim>\<open>0x85\<close> is above 7 and has bits 6:3 clear: it is written as 5.\<close>

theorem clock_divider_low_three_bits_witness:
  "(0x85 :: uint8_t) AND 0x78 = 0
   \<and> XLR8SPISRAMMEMCR (clock_divider 0x85 (XLR8SPISRAMMEMCR_store 0xFF zeroed)) = 0x3B"
  using clock_divider_low_three_bits [of "0x85" "XLR8SPISRAMMEMCR_store 0xFF zeroed"]
  by (simp add: load_store)

text \<open>
  The code 8 over a register holding 0: the masked formula gives 0, the register
  holds \<^verbatim>\<open>0x10\<close>.
\<close>

theorem clock_divider_masked_counterexample:
  "XLR8SPISRAMMEMCR (clock_divider 8 zeroed)
     \<noteq> (XLR8SPISRAMMEMCR zeroed AND 0x31) OR push_bit 1 (8 AND 0x07)"
  by (simp add: clock_divider_store load_store load_zeroed)

text \<open>
  Claim C4. \<^verbatim>\<open>clock_divider\<close> does not mask its argument: for every register value
  \<open>v\<close> and every 8-bit code \<open>c\<close> the stored byte is \<open>(v AND 0x31) OR ((c << 1) mod 256)\<close>.
  A bit of \<open>c\<close> at position 3, 4, 5 or 6 lands at position 4, 5, 6 or 7, bit 7 of \<open>c\<close> is
  shifted out, and the code 8 sets bit 4 of the register whatever \<open>v\<close> was.
\<close>

theorem clock_divider_unmasked:
  "XLR8SPISRAMMEMCR (clock_divider c m) = (XLR8SPISRAMMEMCR m AND 0x31) OR push_bit 1 c
   \<and> XLR8SPISRAMMEMCR (clock_divider c m) =
       (XLR8SPISRAMMEMCR m AND 0x31) OR word_of_nat ((2 * unat c) mod 256)
   \<and> bit (XLR8SPISRAMMEMCR (clock_divider c m)) 4 = (bit (XLR8SPISRAMMEMCR m) 4 \<or> bit c 3)
   \<and> bit (XLR8SPISRAMMEMCR (clock_divider c m)) 5 = (bit (XLR8SPISRAMMEMCR m) 5 \<or> bit c 4)
   \<and> bit (XLR8SPISRAMMEMCR (clock_divider c m)) 6 = bit c 5
   \<and> bit (XLR8SPISRAMMEMCR (clock_divider c m)) 7 = bit c 6
   \<and> clock_divider (c OR 0x80) m = clock_divider (c AND 0x7F) m
   \<and> bit (XLR8SPISRAMMEMCR (clock_divider 8 m)) 4
   \<and> XLR8SPISRAMMEMCR (clock_divider 8 (XLR8SPISRAMMEMCR_store 0 m)) = 0x10"
proof -
  define v where "v = XLR8SPISRAMMEMCR m"
  have r: "XLR8SPISRAMMEMCR (clock_divider d m) = (v AND 0x31) OR push_bit 1 d" for d
    unfolding v_def by (simp only: clock_divider_store load_store)
  have as_nat: "(v AND 0x31) OR push_bit 1 c = (v AND 0x31) OR word_of_nat ((2 * unat c) mod 256)"
    using shift_as_nat [of c] by (simp only:)
  have landing:
    "bit ((v AND 0x31) OR push_bit 1 c) 4 = (bit v 4 \<or> bit c 3)"
    "bit ((v AND 0x31) OR push_bit 1 c) 5 = (bit v 5 \<or> bit c 4)"
    "bit ((v AND 0x31) OR push_bit 1 c) 6 = bit c 5"
    "bit ((v AND 0x31) OR push_bit 1 c) 7 = bit c 6"
    "bit ((v AND 0x31) OR push_bit 1 (8 :: uint8_t)) 4"
    by (simp_all add: bitwise)
  have lost: "clock_divider (c OR 0x80) m = clock_divider (c AND 0x7F) m"
    by (simp only: clock_divider_store shift_bit7)
  have eight: "XLR8SPISRAMMEMCR (clock_divider 8 (XLR8SPISRAMMEMCR_store 0 m)) = 0x10"
    by (simp add: clock_divider_store load_store)
  from as_nat landing lost eight show ?thesis
    unfolding r v_def by (intro conjI) simp_all
qed


section \<open>The extended address bit\<close>

text \<open>
  Claim C5. For every register value \<open>v\<close>, \<^verbatim>\<open>extended_address_disable()\<close> stores exactly
  \<open>v AND 0x3E\<close>: bit 0 of the result is 0, bits 5:1 are those of \<open>v\<close>, bits 7:6 are zero.
\<close>

theorem extended_address_disable_result:
  "XLR8SPISRAMMEMCR (extended_address_disable m) = XLR8SPISRAMMEMCR m AND 0x3E
   \<and> \<not> bit (XLR8SPISRAMMEMCR (extended_address_disable m)) 0
   \<and> XLR8SPISRAMMEMCR (extended_address_disable m) AND 0x3E = XLR8SPISRAMMEMCR m AND 0x3E
   \<and> XLR8SPISRAMMEMCR (extended_address_disable m) AND 0xC0 = 0"
proof -
  have reserved: "(v AND 0x3E) AND 0xC0 = 0" for v :: uint8_t
    by (rule uint8_eqI; simp add: bitwise)
  show ?thesis
    by (simp add: extended_address_disable_store load_store bitwise and.assoc reserved)
qed

text \<open>
  Claim C6. For every register value \<open>v\<close>, \<^verbatim>\<open>extended_address_enable()\<close> stores \<open>v OR 0x01\<close>:
  bit 0 of the result is 1 and bits 7:1, the reserved bits 7:6 among them, are those
  of \<open>v\<close>.
\<close>

theorem extended_address_enable_result:
  "XLR8SPISRAMMEMCR (extended_address_enable m) = XLR8SPISRAMMEMCR m OR 0x01
   \<and> bit (XLR8SPISRAMMEMCR (extended_address_enable m)) 0
   \<and> XLR8SPISRAMMEMCR (extended_address_enable m) AND 0xFE = XLR8SPISRAMMEMCR m AND 0xFE"
proof -
  have rest: "(v OR 0x01) AND 0xFE = v AND 0xFE" for v :: uint8_t
    by (rule uint8_eqI; simp add: bitwise)
  show ?thesis
    by (simp add: extended_address_enable_store load_store bitwise rest)
qed

section \<open>Sequences of calls\<close>

text \<open>
  Claim C7. Every mutator is idempotent: from any state, calling it twice in a row
  (\<^verbatim>\<open>clock_divider\<close> with the same 8-bit code both times) leaves the same state, hence
  the same register value, as calling it once.
\<close>

theorem mutators_idempotent:
  "byte_mode (byte_mode m) = byte_mode m
   \<and> page_mode (page_mode m) = page_mode m
   \<and> sequential_mode (sequential_mode m) = sequential_mode m
   \<and> clock_divider c (clock_divider c m) = clock_divider c m
   \<and> extended_address_enable (extended_address_enable m) = extended_address_enable m
   \<and> extended_address_disable (extended_address_disable m) = extended_address_disable m"
proof -
  have again:
    "(v AND 0x0F) AND 0x0F = v AND 0x0F"
    "(((v AND 0x0F) OR 0x20) AND 0x0F) OR 0x20 = (v AND 0x0F) OR 0x20"
    "(((v AND 0x0F) OR 0x10) AND 0x0F) OR 0x10 = (v AND 0x0F) OR 0x10"
    "(((v AND 0x31) OR push_bit 1 c) AND 0x31) OR push_bit 1 c = (v AND 0x31) OR push_bit 1 c"
    "(v OR 0x01) OR 0x01 = v OR 0x01"
    "(v AND 0x3E) AND 0x3E = v AND 0x3E" for v :: uint8_t
    by (rule uint8_eqI; simp add: bitwise)+
  show ?thesis
    by (simp only: method_store load_store store_store again simp_thms)
qed

text \<open>
  Claim C8. From a register holding \<^verbatim>\<open>0x00\<close>, the calls \<^verbatim>\<open>sequential_mode();\<close>
  \<^verbatim>\<open>clock_divider(4);\<close> \<^verbatim>\<open>extended_address_enable();\<close> leave \<^verbatim>\<open>0x19\<close> in it: mode bits 01,
  clock bits 100, extended address bit 1.
\<close>

theorem scenario_S1:
  "XLR8SPISRAMMEMCR
     (extended_address_enable
        (clock_divider 4 (sequential_mode (XLR8SPISRAMMEMCR_store 0x00 m)))) = 0x19
   \<and> take_bit 2 (drop_bit 4 (0x19 :: uint8_t)) = 1
   \<and> take_bit 3 (drop_bit 1 (0x19 :: uint8_t)) = 4
   \<and> bit (0x19 :: uint8_t) 0"
  by (simp add: method_store load_store store_store)

text \<open>
  Claim C9. The extended address bit is independent of the mode and clock fields:
  \<^verbatim>\<open>byte_mode()\<close>, \<^verbatim>\<open>page_mode()\<close>, \<^verbatim>\<open>sequential_mode()\<close> and \<^verbatim>\<open>clock_divider(c)\<close>, for every
  8-bit code \<open>c\<close>, leave bit 0 of the register as it was, and
  \<^verbatim>\<open>extended_address_enable()\<close> and \<^verbatim>\<open>extended_address_disable()\<close> leave bits 5:1 as they
  were.
\<close>

theorem extended_address_independent:
  "XLR8SPISRAMMEMCR (byte_mode m) AND 0x01 = XLR8SPISRAMMEMCR m AND 0x01
   \<and> XLR8SPISRAMMEMCR (page_mode m) AND 0x01 = XLR8SPISRAMMEMCR m AND 0x01
   \<and> XLR8SPISRAMMEMCR (sequential_mode m) AND 0x01 = XLR8SPISRAMMEMCR m AND 0x01
   \<and> XLR8SPISRAMMEMCR (clock_divider c m) AND 0x01 = XLR8SPISRAMMEMCR m AND 0x01
   \<and> XLR8SPISRAMMEMCR (extended_address_enable m) AND 0x3E = XLR8SPISRAMMEMCR m AND 0x3E
   \<and> XLR8SPISRAMMEMCR (extended_address_disable m) AND 0x3E = XLR8SPISRAMMEMCR m AND 0x3E"
proof -
  have kept:
    "(v AND 0x0F) AND 0x01 = v AND 0x01"
    "((v AND 0x0F) OR 0x20) AND 0x01 = v AND 0x01"
    "((v AND 0x0F) OR 0x10) AND 0x01 = v AND 0x01"
    "((v AND 0x31) OR push_bit 1 c) AND 0x01 = v AND 0x01"
    "(v OR 0x01) AND 0x3E = v AND 0x3E"
    "(v AND 0x3E) AND 0x3E = v AND 0x3E" for v :: uint8_t
    by (rule uint8_eqI; simp add: bitwise)+
  show ?thesis
    by (simp only: method_store load_store kept simp_thms)
qed

text \<open>
  Claim C10. \<^verbatim>\<open>extended_address_enable()\<close> commutes with each of \<^verbatim>\<open>byte_mode()\<close>,
  \<^verbatim>\<open>page_mode()\<close>, \<^verbatim>\<open>sequential_mode()\<close> and \<^verbatim>\<open>clock_divider(c)\<close>, for every 8-bit code \<open>c\<close>:
  from any state both orders of the two calls end in the same state.
\<close>

theorem extended_address_enable_commutes:
  "byte_mode (extended_address_enable m) = extended_address_enable (byte_mode m)
   \<and> page_mode (extended_address_enable m) = extended_address_enable (page_mode m)
   \<and> sequential_mode (extended_address_enable m) = extended_address_enable (sequential_mode m)
   \<and> clock_divider c (extended_address_enable m) = extended_address_enable (clock_divider c m)"
proof (intro conjI)
  define v where "v = XLR8SPISRAMMEMCR m"
  have "(v OR 0x01) AND 0x0F = (v AND 0x0F) OR 0x01"
    by (rule uint8_eqI; simp add: bitwise)
  then show "byte_mode (extended_address_enable m) = extended_address_enable (byte_mode m)"
    unfolding v_def by (simp only: method_store load_store store_store)
  have "((v OR 0x01) AND 0x0F) OR 0x20 = ((v AND 0x0F) OR 0x20) OR 0x01"
    by (rule uint8_eqI; simp add: bitwise)
  then show "page_mode (extended_address_enable m) = extended_address_enable (page_mode m)"
    unfolding v_def by (simp only: method_store load_store store_store)
  have "((v OR 0x01) AND 0x0F) OR 0x10 = ((v AND 0x0F) OR 0x10) OR 0x01"
    by (rule uint8_eqI; simp add: bitwise)
  then show "sequential_mode (extended_address_enable m)
      = extended_address_enable (sequential_mode m)"
    unfolding v_def by (simp only: method_store load_store store_store)
  have "((v OR 0x01) AND 0x31) OR push_bit 1 c = ((v AND 0x31) OR push_bit 1 c) OR 0x01"
    by (rule uint8_eqI; simp add: bitwise)
  then show "clock_divider c (extended_address_enable m)
      = extended_address_enable (clock_divider c m)"
    unfolding v_def by (simp only: method_store load_store store_store)
qed

end
